theory Spec2Isabelle
  imports Complex_Main "HOL-Library.Log_Nat"
begin

section \<open>Data model\<close>

text \<open>
  The routers of \<^verbatim>\<open>app/routers/products.py\<close> and \<^verbatim>\<open>app/routers/reviews.py\<close> work on
  three tables through an SQLAlchemy session. A table is the list of its rows in storage
  order; a handler takes the database and returns its outcome together with the database
  it leaves behind, so that a raised \<^verbatim>\<open>HTTPException\<close> is a value and every write is
  visible.
\<close>

datatype http_exception = HTTPException (status_code: nat) (detail: string)

abbreviation HTTP_400_BAD_REQUEST :: nat where "HTTP_400_BAD_REQUEST \<equiv> 400"
abbreviation HTTP_403_FORBIDDEN :: nat where "HTTP_403_FORBIDDEN \<equiv> 403"
abbreviation HTTP_404_NOT_FOUND :: nat where "HTTP_404_NOT_FOUND \<equiv> 404"

text \<open>
  \<^verbatim>\<open>class Review(Base)\<close> of \<^verbatim>\<open>app/models/reviews.py\<close>, column by column. The comment
  is nullable; the timestamp is a number of seconds.
\<close>

record review =
  r_id :: int
  r_user_id :: int
  r_product_id :: int
  r_comment :: "string option"
  r_comment_date :: nat
  r_grade :: int
  r_is_active :: bool

text \<open>
  Modelled from the spec: the declaration of \<^verbatim>\<open>Product\<close> (\<^verbatim>\<open>app/models/products.py\<close>)
  is missing. The routers read and write \<^verbatim>\<open>id\<close>, \<^verbatim>\<open>seller_id\<close>, \<^verbatim>\<open>category_id\<close>,
  \<^verbatim>\<open>is_active\<close> and \<^verbatim>\<open>rating\<close>; the descriptive fields (name, price and so on) are
  one value of a type parameter. The rating is a floating-point column; a floating-point
  value is a rational number, and the column holds it as such (\<^verbatim>\<open>0.0\<close> is 0).
\<close>

record 'd product =
  p_id :: int
  p_seller_id :: int
  p_category_id :: int
  p_is_active :: bool
  p_rating :: rat
  p_details :: 'd

text \<open>
  Modelled from the spec: the declarations of \<^verbatim>\<open>Category\<close> and \<^verbatim>\<open>User\<close> are missing.
  The routers read a category's \<^verbatim>\<open>id\<close> and \<^verbatim>\<open>is_active\<close> and a user's \<^verbatim>\<open>id\<close> only.
\<close>

record category =
  c_id :: int
  c_is_active :: bool

record user =
  u_id :: int

text \<open>
  Modelled from the spec: the request schemas \<^verbatim>\<open>ReviewCreate\<close> and \<^verbatim>\<open>ProductCreate\<close>
  (\<^verbatim>\<open>app/schemas.py\<close>) are missing. \<^verbatim>\<open>create_review\<close> reads \<^verbatim>\<open>product_id\<close> and
  \<^verbatim>\<open>grade\<close> and passes the whole dump to the row, \<^verbatim>\<open>user_id\<close> apart; the routers
  for products read \<^verbatim>\<open>category_id\<close> and pass the dump on, \<^verbatim>\<open>seller_id\<close> apart.
\<close>

record review_create =
  rc_product_id :: int
  rc_comment :: "string option"
  rc_grade :: int

record 'd product_create =
  pc_category_id :: int
  pc_details :: 'd

text \<open>
  The database is its three tables and its engine's \<^verbatim>\<open>AVG\<close> aggregate: \<open>db_avg db gs\<close>
  is what the engine returns for \<^verbatim>\<open>AVG\<close> over the non-empty integer column \<open>gs\<close>. The
  engine is not part of the repository, and it works in finite precision (a double in
  SQLite, a decimal of bounded scale in PostgreSQL), so the value is the engine's to
  name: no handler computes a mean itself.
\<close>

record 'd db =
  products :: "'d product list"
  reviews :: "review list"
  categories :: "category list"
  db_avg :: "int list \<Rightarrow> rat"

section \<open>The session's queries\<close>

text \<open>\<^verbatim>\<open>result.first()\<close>: the first row of a result, or \<^verbatim>\<open>None\<close>.\<close>

definition scalars_first :: "'a list \<Rightarrow> 'a option" where
  "scalars_first rows = (case rows of [] \<Rightarrow> None | x # _ \<Rightarrow> Some x)"

text \<open>
  \<^verbatim>\<open>func.avg\<close>: SQL's \<^verbatim>\<open>AVG\<close> is \<^verbatim>\<open>NULL\<close> over no rows, and the engine's value
  otherwise.
\<close>

definition func_avg :: "(int list \<Rightarrow> rat) \<Rightarrow> int list \<Rightarrow> rat option" where
  "func_avg avg gs = (if gs = [] then None else Some (avg gs))"

text \<open>\<^verbatim>\<open>update(T).where(w).values(v)\<close>: every row that matches is rewritten in place.\<close>

definition sql_update :: "('a \<Rightarrow> bool) \<Rightarrow> ('a \<Rightarrow> 'a) \<Rightarrow> 'a list \<Rightarrow> 'a list" where
  "sql_update w v rows = map (\<lambda>row. if w row then v row else row) rows"

section \<open>Rating recomputation\<close>

text \<open>\<^verbatim>\<open>update_product_rating\<close>, \<^verbatim>\<open>products.py\<close> lines 185 to 199.\<close>

definition update_product_rating :: "int \<Rightarrow> 'd db \<Rightarrow> 'd db" where
  "update_product_rating product_id db =
     (let stmt_updated_rating =
            func_avg (db_avg db) (map r_grade
              (filter (\<lambda>r. r_product_id r = product_id \<and> r_is_active r = True) (reviews db)));
          updated_rating =
            (case stmt_updated_rating of None \<Rightarrow> 0 | Some v \<Rightarrow> v)
      in db\<lparr>products :=
              sql_update (\<lambda>p. p_id p = product_id) (\<lambda>p. p\<lparr>p_rating := updated_rating\<rparr>)
                (products db)\<rparr>)"

section \<open>Review handlers\<close>

text \<open>
  \<^verbatim>\<open>get_review\<close>, \<^verbatim>\<open>reviews.py\<close> lines 31 to 45. The handler binds \<^verbatim>\<open>review\<close> to
  \<^verbatim>\<open>stmt.all()\<close>, which is a list object whatever the query finds, and then tests
  \<^verbatim>\<open>review is None\<close>.
\<close>

definition scalars_all :: "'a list \<Rightarrow> 'a list option" where
  "scalars_all rows = Some rows"

definition get_review :: "int \<Rightarrow> 'd db \<Rightarrow> http_exception + review list" where
  "get_review review_id db =
     (let review =
            scalars_all
              (filter (\<lambda>r. r_id r = review_id \<and> r_is_active r = True) (reviews db))
      in case review of
           None \<Rightarrow> Inl (HTTPException HTTP_404_NOT_FOUND ''Review not found!'')
         | Some rows \<Rightarrow> Inr rows)"

text \<open>
  \<^verbatim>\<open>create_review\<close>, \<^verbatim>\<open>reviews.py\<close> lines 48 to 80. The primary key that the database
  gives the new row and the value of \<^verbatim>\<open>func.now()\<close> are arguments; the other defaults
  are the columns' (\<^verbatim>\<open>is_active = True\<close>). \<^verbatim>\<open>db.add\<close> puts the row at the end of
  the table.
\<close>

definition create_review ::
  "review_create \<Rightarrow> user \<Rightarrow> int \<Rightarrow> nat \<Rightarrow> 'd db \<Rightarrow> (http_exception + review) \<times> 'd db" where
  "create_review review current_user new_id now db =
     (case scalars_first
             (filter (\<lambda>p. p_id p = rc_product_id review \<and> p_is_active p = True) (products db)) of
        None \<Rightarrow>
          (Inl (HTTPException HTTP_404_NOT_FOUND ''Product not found or inactive!''), db)
      | Some product \<Rightarrow>
          if \<not> (1 \<le> rc_grade review \<and> rc_grade review \<le> 5) then
            (Inl (HTTPException HTTP_400_BAD_REQUEST ''Grade should be from 1 to 5!''), db)
          else
            let db_review =
                  \<lparr>r_id = new_id, r_user_id = u_id current_user,
                   r_product_id = rc_product_id review, r_comment = rc_comment review,
                   r_comment_date = now, r_grade = rc_grade review, r_is_active = True\<rparr>;
                db1 = db\<lparr>reviews := reviews db @ [db_review]\<rparr>;
                db2 = update_product_rating (p_id product) db1
            in (Inr db_review, db2))"

text \<open>\<^verbatim>\<open>delete_review\<close>, \<^verbatim>\<open>reviews.py\<close> lines 83 to 107.\<close>

definition delete_review ::
  "int \<Rightarrow> user \<Rightarrow> 'd db \<Rightarrow> (http_exception + (string \<times> string) list) \<times> 'd db" where
  "delete_review review_id current_user db =
     (case scalars_first
             (filter (\<lambda>r. r_id r = review_id \<and> r_is_active r = True) (reviews db)) of
        None \<Rightarrow>
          (Inl (HTTPException HTTP_404_NOT_FOUND ''Review not found or inactive!''), db)
      | Some review \<Rightarrow>
          let db1 = db\<lparr>reviews :=
                       sql_update (\<lambda>r. r_id r = review_id) (\<lambda>r. r\<lparr>r_is_active := False\<rparr>)
                         (reviews db)\<rparr>;
              db2 = update_product_rating (r_product_id review) db1
          in (Inr [(''message'', ''Review deleted!'')], db2))"

section \<open>Product handlers\<close>

text \<open>
  \<^verbatim>\<open>update_product\<close>, \<^verbatim>\<open>products.py\<close> lines 105 to 147. The handler returns the row
  it found, refreshed after the commit.
\<close>

definition update_product ::
  "int \<Rightarrow> 'd product_create \<Rightarrow> user \<Rightarrow> 'd db \<Rightarrow> (http_exception + 'd product) \<times> 'd db" where
  "update_product product_id product current_user db =
     (case scalars_first
             (filter (\<lambda>p. p_id p = product_id \<and> p_is_active p = True) (products db)) of
        None \<Rightarrow> (Inl (HTTPException HTTP_404_NOT_FOUND ''Product not found!''), db)
      | Some db_product \<Rightarrow>
          if p_seller_id db_product \<noteq> u_id current_user then
            (Inl (HTTPException HTTP_403_FORBIDDEN ''You can only update your own products!''), db)
          else
            (case scalars_first
                    (filter (\<lambda>c. c_id c = pc_category_id product \<and> c_is_active c = True)
                       (categories db)) of
               None \<Rightarrow>
                 (Inl (HTTPException HTTP_400_BAD_REQUEST ''Category not found or inactive''), db)
             | Some db_category \<Rightarrow>
                 let vals = (\<lambda>p. p\<lparr>p_category_id := pc_category_id product,
                                    p_details := pc_details product\<rparr>);
                     db1 = db\<lparr>products :=
                              sql_update (\<lambda>p. p_id p = product_id) vals (products db)\<rparr>
                 in (Inr (vals db_product), db1)))"

text \<open>\<^verbatim>\<open>delete_product\<close>, \<^verbatim>\<open>products.py\<close> lines 150 to 182.\<close>

definition delete_product ::
  "int \<Rightarrow> user \<Rightarrow> 'd db \<Rightarrow> (http_exception + 'd product) \<times> 'd db" where
  "delete_product product_id current_user db =
     (case scalars_first
             (filter (\<lambda>p. p_id p = product_id \<and> p_is_active p = True) (products db)) of
        None \<Rightarrow>
          (Inl (HTTPException HTTP_404_NOT_FOUND ''Product not found or inactive!''), db)
      | Some product \<Rightarrow>
          if p_seller_id product \<noteq> u_id current_user then
            (Inl (HTTPException HTTP_403_FORBIDDEN ''You can only delete your own products!''), db)
          else
            let db1 = db\<lparr>products :=
                         sql_update (\<lambda>p. p_id p = product_id) (\<lambda>p. p\<lparr>p_is_active := False\<rparr>)
                           (products db)\<rparr>
            in (Inr (product\<lparr>p_is_active := False\<rparr>), db1))"

section \<open>Primary keys\<close>

text \<open>
  \<^verbatim>\<open>id\<close> is the primary key of each table (\<^verbatim>\<open>mapped_column(primary_key=True)\<close>): the
  database holds no two rows of a table with the same \<^verbatim>\<open>id\<close>.
\<close>

definition pk_reviews :: "'d db \<Rightarrow> bool" where
  "pk_reviews db = distinct (map r_id (reviews db))"

definition pk_products :: "'d db \<Rightarrow> bool" where
  "pk_products db = distinct (map p_id (products db))"

section \<open>The rating as the specification words it\<close>

text \<open>
  The specification's rating of a product: the arithmetic mean of \<^verbatim>\<open>grade\<close> over the
  reviews that reference the product and are active, and 0.0 when there is none.
\<close>

definition active_reviews_of :: "review list \<Rightarrow> int \<Rightarrow> review list" where
  "active_reviews_of rs pid = filter (\<lambda>r. r_product_id r = pid \<and> r_is_active r) rs"

definition arithmetic_mean :: "int list \<Rightarrow> rat" where
  "arithmetic_mean gs = of_int (sum_list gs) / of_int (int (length gs))"

definition spec_rating :: "review list \<Rightarrow> int \<Rightarrow> rat" where
  "spec_rating rs pid =
     (if active_reviews_of rs pid = [] then 0
      else arithmetic_mean (map r_grade (active_reviews_of rs pid)))"

section \<open>The rating as the code stores it\<close>

text \<open>
  What the recomputation stores, for an engine \<open>avg\<close>: the engine's \<^verbatim>\<open>AVG\<close> of
  \<^verbatim>\<open>grade\<close> over the same reviews, and 0.0 when there is none.
\<close>

definition engine_rating :: "(int list \<Rightarrow> rat) \<Rightarrow> review list \<Rightarrow> int \<Rightarrow> rat" where
  "engine_rating avg rs pid =
     (if active_reviews_of rs pid = [] then 0
      else avg (map r_grade (active_reviews_of rs pid)))"

section \<open>An engine that computes in IEEE doubles\<close>

text \<open>
  An engine whose \<^verbatim>\<open>AVG\<close> over integers is the sum divided by the count in IEEE 754
  double precision, as SQLite's is: the exact quotient rounded to the nearest number
  with a 53-bit significand, ties to the even one. The sum and the count are integers
  that a double holds exactly, and a quotient of such integers is far from the ends of
  the exponent range, which are left out.
\<close>

definition round_half_even :: "rat \<Rightarrow> int" where
  "round_half_even y =
     (let f = \<lfloor>y\<rfloor>; d = y - of_int f
      in if d < 1 / 2 then f else if 1 / 2 < d then f + 1 else if even f then f else f + 1)"

text \<open>The exponent \<open>e\<close> of a positive quotient: \<open>2 powi e \<le> a / b < 2 powi (e + 1)\<close>.\<close>

definition double_exponent :: "int \<Rightarrow> int \<Rightarrow> int" where
  "double_exponent a b =
     (let e0 = bitlen a - bitlen b
      in if 2 powi e0 * (of_int b :: rat) \<le> of_int a then e0 else e0 - 1)"

definition double_div :: "int \<Rightarrow> int \<Rightarrow> rat" where
  "double_div s n =
     (if s = 0 then 0
      else let k = 52 - double_exponent \<bar>s\<bar> n;
               m = round_half_even (of_int \<bar>s\<bar> * 2 powi k / of_int n)
           in of_int (sgn s * m) / 2 powi k)"

definition double_avg :: "int list \<Rightarrow> rat" where
  "double_avg gs = double_div (sum_list gs) (int (length gs))"

section \<open>Example databases\<close>

definition review1 :: review where
  "review1 = \<lparr>r_id = 1, r_user_id = 10, r_product_id = 1, r_comment = Some ''ok'',
     r_comment_date = 100, r_grade = 3, r_is_active = True\<rparr>"

definition review2 :: review where
  "review2 = \<lparr>r_id = 2, r_user_id = 11, r_product_id = 1, r_comment = None,
     r_comment_date = 200, r_grade = 5, r_is_active = True\<rparr>"

definition review3 :: review where
  "review3 = \<lparr>r_id = 3, r_user_id = 10, r_product_id = 2, r_comment = None,
     r_comment_date = 300, r_grade = 4, r_is_active = False\<rparr>"

definition review4 :: review where
  "review4 = \<lparr>r_id = 4, r_user_id = 12, r_product_id = 2, r_comment = Some ''wobbly'',
     r_comment_date = 400, r_grade = 2, r_is_active = True\<rparr>"

definition product1 :: "string product" where
  "product1 = \<lparr>p_id = 1, p_seller_id = 20, p_category_id = 1, p_is_active = True,
     p_rating = 0, p_details = ''lamp''\<rparr>"

definition product2 :: "string product" where
  "product2 = \<lparr>p_id = 2, p_seller_id = 21, p_category_id = 1, p_is_active = False,
     p_rating = 9 / 2, p_details = ''desk''\<rparr>"

definition shop :: "string db" where
  "shop = \<lparr>products = [product1, product2], reviews = [review1, review2, review3, review4],
     categories = [\<lparr>c_id = 1, c_is_active = True\<rparr>], db_avg = double_avg\<rparr>"

text \<open>A second shop: one product, reviewed with the grades 1, 2 and 2.\<close>

definition review5 :: review where
  "review5 = \<lparr>r_id = 5, r_user_id = 10, r_product_id = 1, r_comment = None,
     r_comment_date = 500, r_grade = 1, r_is_active = True\<rparr>"

definition review6 :: review where
  "review6 = \<lparr>r_id = 6, r_user_id = 11, r_product_id = 1, r_comment = None,
     r_comment_date = 600, r_grade = 2, r_is_active = True\<rparr>"

definition review7 :: review where
  "review7 = \<lparr>r_id = 7, r_user_id = 12, r_product_id = 1, r_comment = None,
     r_comment_date = 700, r_grade = 2, r_is_active = True\<rparr>"

definition stall :: "string db" where
  "stall = \<lparr>products = [product1], reviews = [review5, review6, review7],
     categories = [\<lparr>c_id = 1, c_is_active = True\<rparr>], db_avg = double_avg\<rparr>"

section \<open>Properties of the recomputation\<close>

lemma update_product_rating_eq:
  "update_product_rating pid db =
     db\<lparr>products :=
          sql_update (\<lambda>p. p_id p = pid)
            (\<lambda>p. p\<lparr>p_rating := engine_rating (db_avg db) (reviews db) pid\<rparr>)
            (products db)\<rparr>"
  by (simp add: update_product_rating_def func_avg_def engine_rating_def active_reviews_of_def
      Let_def)

lemma db_avg_update_product_rating [simp]:
  "db_avg (update_product_rating pid db) = db_avg db"
  by (simp add: update_product_rating_eq)

lemma reviews_update_product_rating [simp]:
  "reviews (update_product_rating pid db) = reviews db"
  by (simp add: update_product_rating_eq)

lemma categories_update_product_rating [simp]:
  "categories (update_product_rating pid db) = categories db"
  by (simp add: update_product_rating_eq)

lemma products_update_product_rating:
  "products (update_product_rating pid db) =
     map (\<lambda>p. if p_id p = pid
              then p\<lparr>p_rating := engine_rating (db_avg db) (reviews db) pid\<rparr> else p)
       (products db)"
  by (simp add: update_product_rating_eq sql_update_def)

lemma rating_after_sql_update:
  assumes "q \<in> set (map (\<lambda>p. if p_id p = pid then p\<lparr>p_rating := v\<rparr> else p) xs)"
    and "p_id q = pid"
  shows "p_rating q = v"
proof -
  from assms(1) obtain p where q: "q = (if p_id p = pid then p\<lparr>p_rating := v\<rparr> else p)"
    unfolding set_map by blast
  show ?thesis
  proof (cases "p_id p = pid")
    case True
    with q have "q = p\<lparr>p_rating := v\<rparr>" by simp
    then show ?thesis by simp
  next
    case False
    with q have "q = p" by simp
    with False assms(2) show ?thesis by simp
  qed
qed


lemma rating_after_update:
  "q \<in> set (products (update_product_rating pid db)) \<Longrightarrow> p_id q = pid \<Longrightarrow>
     p_rating q = engine_rating (db_avg db) (reviews db) pid"
  unfolding products_update_product_rating by (rule rating_after_sql_update)

lemma row_after_update:
  assumes "p \<in> set (products db)" and "p_id p = pid"
  shows "p\<lparr>p_rating := engine_rating (db_avg db) (reviews db) pid\<rparr>
           \<in> set (products (update_product_rating pid db))"
proof -
  let ?v = "engine_rating (db_avg db) (reviews db) pid"
  let ?f = "\<lambda>p. if p_id p = pid then p\<lparr>p_rating := ?v\<rparr> else p"
  from assms(1) have "?f p \<in> set (map ?f (products db))" by (simp only: set_map) (rule imageI)
  moreover from assms(2) have "?f p = p\<lparr>p_rating := ?v\<rparr>" by simp
  ultimately show ?thesis by (simp only: products_update_product_rating)
qed

section \<open>Facts about the queries\<close>

lemmas shop_defs = shop_def product1_def product2_def review1_def review2_def review3_def
  review4_def

lemma scalars_first_filter_None:
  "(scalars_first (filter P xs) = None) = (\<forall>x\<in>set xs. \<not> P x)"
  by (induction xs) (auto simp: scalars_first_def)


lemma scalars_first_filter_unique:
  "distinct (map key xs) \<Longrightarrow> x \<in> set xs \<Longrightarrow> key x = k \<Longrightarrow> P x \<Longrightarrow>
     scalars_first (filter (\<lambda>y. key y = k \<and> P y) xs) = Some x"
proof (induction xs)
  case Nil
  then show ?case by simp
next
  case (Cons a xs)
  show ?case
  proof (cases "a = x")
    case True
    with Cons.prems show ?thesis by (simp add: scalars_first_def)
  next
    case False
    with Cons.prems have "x \<in> set xs" by simp
    with Cons.prems have "key a \<noteq> k" by force
    with Cons \<open>x \<in> set xs\<close> show ?thesis by simp
  qed
qed

section \<open>Facts about the double engine\<close>

lemma round_half_even_err: "\<bar>of_int (round_half_even y) - y\<bar> \<le> 1 / 2"
proof -
  have "of_int \<lfloor>y\<rfloor> \<le> y" and "y < of_int \<lfloor>y\<rfloor> + 1" by linarith+
  then show ?thesis
    by (simp add: round_half_even_def Let_def)
qed

lemma double_exponent_le:
  assumes "0 < a" and "0 < b"
  shows "2 powi (double_exponent a b) * (of_int b :: rat) \<le> of_int a"
proof (cases "2 powi (bitlen a - bitlen b) * (of_int b :: rat) \<le> of_int a")
  case True
  then show ?thesis by (simp add: double_exponent_def)
next
  case False
  then have e: "double_exponent a b = bitlen a - 1 - bitlen b"
    by (simp add: double_exponent_def)
  from bitlen_bounds [OF assms(1)] have a: "2 ^ nat (bitlen a - 1) \<le> a" by simp
  from bitlen_bounds [OF assms(2)] have b: "b < 2 ^ nat (bitlen b)" by simp
  from assms(1) have na: "1 \<le> bitlen a" by (simp add: bitlen_alt_def)
  have nb: "0 \<le> bitlen b" by (rule bitlen_nonneg)
  from b have "(of_int b :: rat) \<le> 2 ^ nat (bitlen b)"
    by (metis less_imp_le of_int_le_iff of_int_numeral of_int_power)
  then have "(of_int b :: rat) \<le> 2 powi (bitlen b)"
    using nb by (simp add: power_int_def)
  then have "2 powi (bitlen a - 1 - bitlen b) * (of_int b :: rat)
      \<le> 2 powi (bitlen a - 1 - bitlen b) * 2 powi (bitlen b)"
    by (intro mult_left_mono) simp_all
  also have "\<dots> = (2 :: rat) powi (bitlen a - 1)"
    by (simp add: power_int_add [symmetric])
  also have "\<dots> = 2 ^ nat (bitlen a - 1)"
    using na by (simp add: power_int_def)
  also from a have "\<dots> \<le> (of_int a :: rat)"
    by (metis of_int_le_iff of_int_numeral of_int_power)
  finally show ?thesis by (simp add: e)
qed

lemma double_div_err:
  assumes "0 < n"
  shows "\<bar>double_div s n - of_int s / of_int n\<bar> \<le> \<bar>of_int s / of_int n\<bar> / 2 ^ 53"
proof (cases "s = 0")
  case True
  then show ?thesis by (simp add: double_div_def)
next
  case False
  define a where "a = \<bar>s\<bar>"
  define k where "k = 52 - double_exponent a n"
  define P :: rat where "P = 2 powi k"
  define y :: rat where "y = of_int a * P / of_int n"
  define m where "m = round_half_even y"
  from False have a: "0 < a" by (simp add: a_def)
  have P: "0 < P" by (simp add: P_def)
  from assms have n: "(0 :: rat) < of_int n" by simp
  have dd: "double_div s n = of_int (sgn s * m) / P"
    using False by (simp add: double_div_def Let_def a_def k_def P_def y_def m_def)
  have sn: "(of_int s :: rat) / of_int n = of_int (sgn s) * (y / P)"
    using P n by (simp add: y_def a_def sgn_if abs_if)
  have "2 powi (double_exponent a n) * (of_int n :: rat) \<le> of_int a"
    using a assms by (rule double_exponent_le)
  then have "2 powi (double_exponent a n) * P \<le> y"
    using P n unfolding y_def
    by (simp add: pos_le_divide_eq mult_right_mono mult.commute mult.left_commute)
  moreover have "2 powi (double_exponent a n) * P = (2 :: rat) ^ 52"
    by (simp add: P_def k_def power_int_add [symmetric])
  ultimately have y52: "2 ^ 52 \<le> y" by simp
  have "\<bar>of_int m - y\<bar> \<le> 1 / 2" unfolding m_def by (rule round_half_even_err)
  with y52 have my: "\<bar>of_int m - y\<bar> \<le> y / 2 ^ 53" by simp
  have "double_div s n - of_int s / of_int n = of_int (sgn s) * ((of_int m - y) / P)"
    by (simp add: dd sn algebra_simps diff_divide_distrib)
  then have "\<bar>double_div s n - of_int s / of_int n\<bar> = \<bar>of_int m - y\<bar> / P"
    using False P by (simp add: abs_mult sgn_if)
  also have "\<dots> \<le> y / 2 ^ 53 / P" by (intro divide_right_mono my less_imp_le P)
  also have "\<dots> = \<bar>of_int s / of_int n\<bar> / 2 ^ 53"
    using False P y52 by (simp add: sn abs_mult sgn_if)
  finally show ?thesis .
qed

lemma double_avg_err:
  assumes "gs \<noteq> []"
  shows "\<bar>double_avg gs - arithmetic_mean gs\<bar> \<le> \<bar>arithmetic_mean gs\<bar> / 2 ^ 53"
  unfolding double_avg_def arithmetic_mean_def using assms by (intro double_div_err) simp

lemma double_rating_err:
  "\<bar>engine_rating double_avg rs pid - spec_rating rs pid\<bar> \<le> \<bar>spec_rating rs pid\<bar> / 2 ^ 53"
proof (cases "active_reviews_of rs pid = []")
  case True
  then show ?thesis by (simp add: engine_rating_def spec_rating_def)
next
  case False
  then have "map r_grade (active_reviews_of rs pid) \<noteq> []" by simp
  from double_avg_err [OF this] False show ?thesis
    by (simp add: engine_rating_def spec_rating_def)
qed

lemma double_avg_1_2_2: "double_avg [1, 2, 2] = 7505999378950827 / 4503599627370496"
  by code_simp



lemma double_avg_3_5: "double_avg [3, 5] = 4"
  by code_simp


section \<open>Claims about the recomputation\<close>

text \<open>
  C1, as amended. For every product id, the recomputation writes into the rating of each
  product row with that id the value of the database's \<^verbatim>\<open>AVG\<close> of \<^verbatim>\<open>grade\<close> over the
  reviews that reference the product and are active, and exactly 0 when there is no such
  review; every other product row stays as it was. The value is the arithmetic mean in
  the engine's finite precision: with an engine that computes in doubles it differs from
  the exact mean by at most the size of the mean divided by \<open>2 ^ 53\<close>.
\<close>

theorem update_product_rating_writes_avg:
  "list_all2
     (\<lambda>p q. q = (if p_id p = pid
                  then p\<lparr>p_rating :=
                         (if active_reviews_of (reviews db) pid = [] then 0
                          else db_avg db (map r_grade (active_reviews_of (reviews db) pid)))\<rparr>
                  else p))
     (products db) (products (update_product_rating pid db)) \<and>
   (db_avg db = double_avg \<longrightarrow>
      (\<forall>q\<in>set (products (update_product_rating pid db)). p_id q = pid \<longrightarrow>
         \<bar>p_rating q - spec_rating (reviews db) pid\<bar>
           \<le> \<bar>spec_rating (reviews db) pid\<bar> / 2 ^ 53))"
proof (intro conjI impI ballI)
  show "list_all2
     (\<lambda>p q. q = (if p_id p = pid
                  then p\<lparr>p_rating :=
                         (if active_reviews_of (reviews db) pid = [] then 0
                          else db_avg db (map r_grade (active_reviews_of (reviews db) pid)))\<rparr>
                  else p))
     (products db) (products (update_product_rating pid db))"
    by (simp add: products_update_product_rating engine_rating_def list_all2_map2
        list.rel_refl)
next
  fix q
  assume "db_avg db = double_avg" and "q \<in> set (products (update_product_rating pid db))"
    and "p_id q = pid"
  then have "p_rating q = engine_rating double_avg (reviews db) pid"
    using rating_after_update [of q pid db] by simp
  then show "\<bar>p_rating q - spec_rating (reviews db) pid\<bar>
      \<le> \<bar>spec_rating (reviews db) pid\<bar> / 2 ^ 53"
    by (simp only: double_rating_err)
qed

text \<open>
  C1, as the specification states it, fails: on the second shop, whose engine computes
  in doubles, the grades 1, 2 and 2 have the mean 5/3, and the rating written is
  1.6666666666666667, the double next to it.
\<close>

theorem update_product_rating_exact_mean_counterexample:
  "arithmetic_mean (map r_grade (active_reviews_of (reviews stall) 1)) = 5 / 3 \<and>
   map p_rating (products (update_product_rating 1 stall)) =
     [7505999378950827 / 4503599627370496] \<and>
   \<not> list_all2
     (\<lambda>p q. q = (if p_id p = 1
                  then p\<lparr>p_rating :=
                         (if active_reviews_of (reviews stall) 1 = [] then 0
                          else arithmetic_mean
                                 (map r_grade (active_reviews_of (reviews stall) 1)))\<rparr>
                  else p))
     (products stall) (products (update_product_rating 1 stall))"
  by (simp add: products_update_product_rating engine_rating_def active_reviews_of_def
      arithmetic_mean_def stall_def product1_def review5_def review6_def review7_def
      double_avg_1_2_2)

text \<open>
  C3. The recomputation is idempotent: run twice on the same product with no change to
  the reviews in between, it leaves the database that the first run left.
\<close>

theorem update_product_rating_idempotent:
  "update_product_rating pid (update_product_rating pid db) = update_product_rating pid db"
  by (simp add: update_product_rating_eq sql_update_def)

section \<open>Facts about the handlers\<close>

lemma create_review_found:
  assumes "p \<in> set (products db)" and "p_id p = pid" and "p_is_active p"
  shows "\<exists>product. scalars_first
      (filter (\<lambda>p. p_id p = pid \<and> p_is_active p = True) (products db)) = Some product"
proof -
  from assms have "\<not> (\<forall>x\<in>set (products db). \<not> (p_id x = pid \<and> p_is_active x = True))"
    by blast
  then have "scalars_first
      (filter (\<lambda>p. p_id p = pid \<and> p_is_active p = True) (products db)) \<noteq> None"
    using scalars_first_filter_None
      [of "\<lambda>p. p_id p = pid \<and> p_is_active p = True" "products db"]
    by blast
  then show ?thesis by blast
qed

lemma create_review_not_found:
  assumes "\<forall>p\<in>set (products db). p_id p = pid \<longrightarrow> \<not> p_is_active p"
  shows "scalars_first
      (filter (\<lambda>p. p_id p = pid \<and> p_is_active p = True) (products db)) = None"
proof -
  from assms have "\<forall>x\<in>set (products db). \<not> (p_id x = pid \<and> p_is_active x = True)"
    by blast
  then show ?thesis by (simp only: scalars_first_filter_None)
qed


text \<open>
  C5. A review-creation request that references an existing active product and carries a
  grade below 1 or above 5 fails with status 400; the database it leaves is the database
  it found, so no review row is inserted and no rating is changed.
\<close>

theorem create_review_bad_grade:
  assumes "p \<in> set (products db)" and "p_id p = rc_product_id rc" and "p_is_active p"
    and "rc_grade rc < 1 \<or> 5 < rc_grade rc"
  shows "create_review rc u new_id now db =
           (Inl (HTTPException HTTP_400_BAD_REQUEST ''Grade should be from 1 to 5!''), db)"
proof -
  from assms(1-3) obtain product where
    "scalars_first (filter (\<lambda>p. p_id p = rc_product_id rc \<and> p_is_active p = True) (products db))
       = Some product"
    using create_review_found by blast
  moreover from assms(4) have "\<not> (1 \<le> rc_grade rc \<and> rc_grade rc \<le> 5)" by arith
  ultimately show ?thesis
    by (simp add: create_review_def)
qed

text \<open>
  C6. A review-creation request whose product reference names no product, or only
  products whose active flag is false, fails with status 404; the database it leaves is
  the database it found, so no review row is inserted and no rating is changed.
\<close>

theorem create_review_no_product:
  assumes "\<forall>p\<in>set (products db). p_id p = rc_product_id rc \<longrightarrow> \<not> p_is_active p"
  shows "create_review rc u new_id now db =
           (Inl (HTTPException HTTP_404_NOT_FOUND ''Product not found or inactive!''), db)"
  using create_review_not_found [OF assms]
  by (simp add: create_review_def)

text \<open>
  C9. In review creation the product check comes before the grade check: a request whose
  product is missing or inactive and whose grade is outside 1 to 5 fails with status 404,
  not with the status 400 of the grade check.
\<close>

theorem create_review_not_found_before_grade:
  assumes "\<forall>p\<in>set (products db). p_id p = rc_product_id rc \<longrightarrow> \<not> p_is_active p"
    and "rc_grade rc < 1 \<or> 5 < rc_grade rc"
  shows "fst (create_review rc u new_id now db) =
           Inl (HTTPException HTTP_404_NOT_FOUND ''Product not found or inactive!'') \<and>
         fst (create_review rc u new_id now db) \<noteq>
           Inl (HTTPException HTTP_400_BAD_REQUEST ''Grade should be from 1 to 5!'')"
  using create_review_not_found [OF assms(1)]
  by (simp add: create_review_def)

text \<open>
  C7. A successful soft-deletion of a product changes the active flag of the rows with
  that id to false and nothing else: each such row keeps its rating and every other
  field, every other product row is as it was, and so are the reviews and the categories.
\<close>

theorem delete_product_frame:
  assumes "delete_product pid u db = (Inr p', db')"
  shows "reviews db' = reviews db \<and> categories db' = categories db \<and>
         list_all2 (\<lambda>p q. q = (if p_id p = pid then p\<lparr>p_is_active := False\<rparr> else p))
           (products db) (products db')"
proof (cases "scalars_first (filter (\<lambda>p. p_id p = pid \<and> p_is_active p = True) (products db))")
  case None
  with assms show ?thesis by (simp add: delete_product_def)
next
  case (Some product)
  show ?thesis
  proof (cases "p_seller_id product \<noteq> u_id u")
    case True
    with Some assms show ?thesis by (simp add: delete_product_def)
  next
    case False
    with Some assms have
      "db' = db\<lparr>products :=
                 sql_update (\<lambda>p. p_id p = pid) (\<lambda>p. p\<lparr>p_is_active := False\<rparr>) (products db)\<rparr>"
      by (simp add: delete_product_def)
    then show ?thesis
      by (simp add: sql_update_def list_all2_map2 list.rel_refl)
  qed
qed

text \<open>
  C8. An update request from a seller whose id differs from the seller reference of the
  target product, the product existing and being active, fails with status 403 and leaves
  the database as it found it.
\<close>

theorem update_product_forbidden:
  assumes "pk_products db" and "p \<in> set (products db)" and "p_id p = pid" and "p_is_active p"
    and "p_seller_id p \<noteq> u_id u"
  shows "update_product pid pc u db =
           (Inl (HTTPException HTTP_403_FORBIDDEN ''You can only update your own products!''), db)"
proof -
  from assms(1-4) have "scalars_first
      (filter (\<lambda>p. p_id p = pid \<and> p_is_active p = True) (products db)) = Some p"
    unfolding pk_products_def
    using scalars_first_filter_unique [of p_id "products db" p pid "\<lambda>p. p_is_active p = True"]
    by simp
  with assms(5) show ?thesis
    by (simp add: update_product_def)
qed





lemma delete_review_success:
  assumes "pk_reviews db" and "r \<in> set (reviews db)" and "r_id r = rid" and "r_is_active r"
  shows "delete_review rid u db =
           (Inr [(''message'', ''Review deleted!'')],
            update_product_rating (r_product_id r)
              (db\<lparr>reviews := sql_update (\<lambda>r. r_id r = rid) (\<lambda>r. r\<lparr>r_is_active := False\<rparr>)
                                (reviews db)\<rparr>))"
proof -
  from assms have "scalars_first
      (filter (\<lambda>r. r_id r = rid \<and> r_is_active r = True) (reviews db)) = Some r"
    unfolding pk_reviews_def
    using scalars_first_filter_unique [of r_id "reviews db" r rid "\<lambda>r. r_is_active r = True"]
    by simp
  then show ?thesis
    by (simp add: delete_review_def Let_def)
qed

lemma soft_deleted_row:
  assumes "r \<in> set rs" and "r_id r = rid"
  shows "r\<lparr>r_is_active := False\<rparr> \<in>
           set (sql_update (\<lambda>r. r_id r = rid) (\<lambda>r. r\<lparr>r_is_active := False\<rparr>) rs)"
proof -
  let ?f = "\<lambda>r. if r_id r = rid then r\<lparr>r_is_active := False\<rparr> else r"
  from assms(1) have "?f r \<in> set (map ?f rs)" by (simp only: set_map) (rule imageI)
  moreover from assms(2) have "?f r = r\<lparr>r_is_active := False\<rparr>" by simp
  ultimately show ?thesis by (simp only: sql_update_def)
qed





text \<open>
  C10. Review soft-deletion does not ask for an active product: for an active review
  whose product has its active flag false, the deletion succeeds and the recomputation
  still overwrites the rating of that inactive product.
\<close>

theorem delete_review_inactive_product:
  assumes "pk_reviews db" and "r \<in> set (reviews db)" and "r_id r = rid" and "r_is_active r"
    and "p \<in> set (products db)" and "p_id p = r_product_id r" and "\<not> p_is_active p"
  shows "fst (delete_review rid a db) = Inr [(''message'', ''Review deleted!'')] \<and>
         p\<lparr>p_rating := engine_rating (db_avg (snd (delete_review rid a db)))
                          (reviews (snd (delete_review rid a db))) (p_id p)\<rparr>
           \<in> set (products (snd (delete_review rid a db))) \<and>
         r\<lparr>r_is_active := False\<rparr> \<in> set (reviews (snd (delete_review rid a db)))"
proof -
  let ?db1 = "db\<lparr>reviews :=
      sql_update (\<lambda>r. r_id r = rid) (\<lambda>r. r\<lparr>r_is_active := False\<rparr>) (reviews db)\<rparr>"
  from delete_review_success [OF assms(1-4)]
  have res: "delete_review rid a db =
      (Inr [(''message'', ''Review deleted!'')], update_product_rating (r_product_id r) ?db1)" .
  from assms(5) have "p \<in> set (products ?db1)" by simp
  from row_after_update [OF this assms(6)]
  have "p\<lparr>p_rating := engine_rating (db_avg ?db1) (reviews ?db1) (r_product_id r)\<rparr>
      \<in> set (products (update_product_rating (r_product_id r) ?db1))" .
  moreover from soft_deleted_row [OF assms(2,3)]
  have "r\<lparr>r_is_active := False\<rparr> \<in> set (reviews ?db1)" by simp
  ultimately show ?thesis using res assms(6) by simp
qed

text \<open>
  C4. The claim: for a review id with no active review, get-review-by-id fails with
  NotFound. The handler, asked for review 3 of the example shop, which is soft-deleted,
  returns the empty list instead.
\<close>

theorem get_review_inactive_returns_empty:
  "filter (\<lambda>r. r_id r = 3 \<and> r_is_active r) (reviews shop) = [] \<and>
   get_review 3 shop = Inr []"
  by (simp add: get_review_def scalars_all_def shop_def review1_def review2_def review3_def
      review4_def)

section \<open>The claims on the example shop\<close>

theorem update_product_rating_writes_avg_witness:
  "products (update_product_rating 1 shop) = [product1\<lparr>p_rating := 4\<rparr>, product2] \<and>
   products (update_product_rating 2 (shop\<lparr>reviews := [review1, review3]\<rparr>)) =
     [product1, product2\<lparr>p_rating := 0\<rparr>] \<and>
   products (update_product_rating 1 stall) =
     [product1\<lparr>p_rating := 7505999378950827 / 4503599627370496\<rparr>] \<and>
   spec_rating (reviews stall) 1 = 5 / 3 \<and>
   \<bar>7505999378950827 / 4503599627370496 - 5 / 3\<bar> \<le> \<bar>5 / 3 :: rat\<bar> / 2 ^ 53"
  using update_product_rating_writes_avg [of 1 shop]
    update_product_rating_writes_avg [of 2 "shop\<lparr>reviews := [review1, review3]\<rparr>"]
    update_product_rating_writes_avg [of 1 stall]
  by (simp add: shop_defs stall_def review5_def review6_def review7_def active_reviews_of_def
      spec_rating_def arithmetic_mean_def list_all2_Cons1 double_avg_3_5 double_avg_1_2_2)

theorem create_review_bad_grade_witness:
  "create_review \<lparr>rc_product_id = 1, rc_comment = None, rc_grade = 6\<rparr> \<lparr>u_id = 10\<rparr> 5 500 shop =
     (Inl (HTTPException HTTP_400_BAD_REQUEST ''Grade should be from 1 to 5!''), shop) \<and>
   create_review \<lparr>rc_product_id = 1, rc_comment = None, rc_grade = 0\<rparr> \<lparr>u_id = 10\<rparr> 5 500 shop =
     (Inl (HTTPException HTTP_400_BAD_REQUEST ''Grade should be from 1 to 5!''), shop)"
  using create_review_bad_grade
      [of product1 shop "\<lparr>rc_product_id = 1, rc_comment = None, rc_grade = 6\<rparr>" "\<lparr>u_id = 10\<rparr>" 5 500]
    create_review_bad_grade
      [of product1 shop "\<lparr>rc_product_id = 1, rc_comment = None, rc_grade = 0\<rparr>" "\<lparr>u_id = 10\<rparr>" 5 500]
  by (simp add: shop_def product1_def)

theorem create_review_no_product_witness:
  "create_review \<lparr>rc_product_id = 999, rc_comment = None, rc_grade = 4\<rparr> \<lparr>u_id = 10\<rparr> 5 500 shop =
     (Inl (HTTPException HTTP_404_NOT_FOUND ''Product not found or inactive!''), shop) \<and>
   create_review \<lparr>rc_product_id = 2, rc_comment = None, rc_grade = 4\<rparr> \<lparr>u_id = 10\<rparr> 5 500 shop =
     (Inl (HTTPException HTTP_404_NOT_FOUND ''Product not found or inactive!''), shop)"
  using create_review_no_product
      [of shop "\<lparr>rc_product_id = 999, rc_comment = None, rc_grade = 4\<rparr>" "\<lparr>u_id = 10\<rparr>" 5 500]
    create_review_no_product
      [of shop "\<lparr>rc_product_id = 2, rc_comment = None, rc_grade = 4\<rparr>" "\<lparr>u_id = 10\<rparr>" 5 500]
  by (simp add: shop_def product1_def product2_def)

theorem create_review_not_found_before_grade_witness:
  "fst (create_review \<lparr>rc_product_id = 2, rc_comment = None, rc_grade = 9\<rparr> \<lparr>u_id = 10\<rparr> 5 500 shop) =
     Inl (HTTPException HTTP_404_NOT_FOUND ''Product not found or inactive!'')"
  using create_review_not_found_before_grade
      [of shop "\<lparr>rc_product_id = 2, rc_comment = None, rc_grade = 9\<rparr>" "\<lparr>u_id = 10\<rparr>" 5 500]
  by (simp add: shop_def product1_def product2_def)

theorem update_product_forbidden_witness:
  "update_product 1 \<lparr>pc_category_id = 1, pc_details = ''torch''\<rparr> \<lparr>u_id = 21\<rparr> shop =
     (Inl (HTTPException HTTP_403_FORBIDDEN ''You can only update your own products!''), shop)"
  using update_product_forbidden
      [of shop product1 1 "\<lparr>u_id = 21\<rparr>" "\<lparr>pc_category_id = 1, pc_details = ''torch''\<rparr>"]
  by (simp add: pk_products_def shop_def product1_def product2_def)


theorem delete_product_frame_witness:
  "delete_product 1 \<lparr>u_id = 20\<rparr> shop =
     (Inr (product1\<lparr>p_is_active := False\<rparr>),
      shop\<lparr>products := [product1\<lparr>p_is_active := False\<rparr>, product2]\<rparr>) \<and>
   p_rating (product1\<lparr>p_is_active := False\<rparr>) = p_rating product1 \<and>
   reviews (shop\<lparr>products := [product1\<lparr>p_is_active := False\<rparr>, product2]\<rparr>) = reviews shop \<and>
   list_all2 (\<lambda>p q. q = (if p_id p = 1 then p\<lparr>p_is_active := False\<rparr> else p))
     (products shop) [product1\<lparr>p_is_active := False\<rparr>, product2]"
proof -
  have h: "delete_product 1 \<lparr>u_id = 20\<rparr> shop =
     (Inr (product1\<lparr>p_is_active := False\<rparr>),
      shop\<lparr>products := [product1\<lparr>p_is_active := False\<rparr>, product2]\<rparr>)"
    by (simp add: delete_product_def scalars_first_def sql_update_def shop_def product1_def
        product2_def)
  from delete_product_frame [OF h] h show ?thesis by simp
qed


theorem delete_review_inactive_product_witness:
  "fst (delete_review 4 \<lparr>u_id = 1\<rparr> shop) = Inr [(''message'', ''Review deleted!'')] \<and>
   product2\<lparr>p_rating := 0\<rparr> \<in> set (products (snd (delete_review 4 \<lparr>u_id = 1\<rparr> shop))) \<and>
   p_rating product2 = 9 / 2 \<and> \<not> p_is_active product2"
proof -
  have r: "engine_rating (db_avg (snd (delete_review 4 \<lparr>u_id = 1\<rparr> shop)))
      (reviews (snd (delete_review 4 \<lparr>u_id = 1\<rparr> shop))) 2 = 0"
    by (simp add: delete_review_def update_product_rating_def func_avg_def scalars_first_def
        sql_update_def Let_def engine_rating_def active_reviews_of_def shop_defs)
  have "pk_reviews shop" and "review4 \<in> set (reviews shop)" and "r_id review4 = 4"
    and "r_is_active review4" and "product2 \<in> set (products shop)"
    and "p_id product2 = r_product_id review4" and "\<not> p_is_active product2"
    by (simp_all add: pk_reviews_def shop_defs)
  from delete_review_inactive_product [OF this, of "\<lparr>u_id = 1\<rparr>"] r
  show ?thesis by (simp add: product2_def)
qed


end
